theory Spec2Isabelle
  imports Main
begin

section \<open>The token-based WebSocket relay of ws-server.js\<close>

text \<open>
  The server keeps one global table \<open>rooms\<close> from a token to a room object
  \<open>{desktop, web}\<close>, each field holding a WebSocket or null. A room object is shared
  between the table and the closures of the listeners registered on every admitted
  socket, so the model keeps room objects in an explicit store (\<open>heap\<close>) and lets the
  table and the closures hold references into it. WebSocket objects are identities
  (\<open>conn\<close>) with a \<open>readyState\<close>. Every call the server makes on a socket
  (\<open>ws.send\<close>, \<open>ws.close\<close>) is appended to \<open>outbox\<close>, in order.
\<close>

subsection \<open>Values\<close>

type_synonym conn = nat
type_synonym token = string
type_synonym ref = nat

datatype ready_state = CONNECTING | OPEN | CLOSING | CLOSED

datatype role = Desktop | Web

text \<open>
  JavaScript values as far as the handlers see them: what \<open>JSON.parse\<close> can return,
  and \<open>undefined\<close> for a property that is not there. An object is the list of its own
  properties. The handlers look at a number only for its truthiness.
\<close>

datatype jsval =
    JUndefined
  | JNull
  | JBool bool
  | JNumber int
  | JString string
  | JArray "jsval list"
  | JObject "(string \<times> jsval) list"

text \<open>The truthiness test of \<open>msg && ...\<close>.\<close>

fun truthy :: "jsval \<Rightarrow> bool" where
  "truthy JUndefined = False"
| "truthy JNull = False"
| "truthy (JBool b) = b"
| "truthy (JNumber n) = (n \<noteq> 0)"
| "truthy (JString s) = (s \<noteq> [])"
| "truthy (JArray xs) = True"
| "truthy (JObject kvs) = True"

text \<open>
  The property read \<open>msg.type\<close>, \<open>msg.name\<close>: an own property of an object, and
  \<open>undefined\<close> on every other truthy value (no built-in prototype has a property of
  either name). The handlers read properties only behind the truthiness test.
\<close>

fun property :: "jsval \<Rightarrow> string \<Rightarrow> jsval" where
  "property (JObject kvs) k = (case map_of kvs k of None \<Rightarrow> JUndefined | Some v \<Rightarrow> v)"
| "property v k = JUndefined"

text \<open>A room object, \<open>{ desktop: WebSocket|null, web: WebSocket|null }\<close>.\<close>

record room =
  desktop :: "conn option"
  web :: "conn option"

text \<open>\<open>room[role]\<close> and \<open>room[role] = v\<close> for a validated role.\<close>

fun get_slot :: "room \<Rightarrow> role \<Rightarrow> conn option" where
  "get_slot r Desktop = desktop r"
| "get_slot r Web = web r"

fun set_slot :: "room \<Rightarrow> role \<Rightarrow> conn option \<Rightarrow> room" where
  "set_slot r Desktop v = r\<lparr>desktop := v\<rparr>"
| "set_slot r Web v = r\<lparr>web := v\<rparr>"

fun role_name :: "role \<Rightarrow> string" where
  "role_name Desktop = ''desktop''"
| "role_name Web = ''web''"

text \<open>A call the server makes on a socket: \<open>ws.send(payload)\<close> or \<open>ws.close(code, reason)\<close>.
  A payload is the object handed to \<open>JSON.stringify\<close>.\<close>

datatype effect = Sent conn jsval | Closed conn nat string

text \<open>The variables captured by the listeners of one admitted socket.\<close>

record closure =
  c_ws :: conn
  c_token :: token
  c_role :: role
  c_room :: ref

record server =
  rooms :: "token \<rightharpoonup> ref"
  heap :: "ref \<Rightarrow> room"
  next_ref :: ref
  sockets :: "conn \<rightharpoonup> ready_state"
  listeners :: "conn \<rightharpoonup> closure"
  outbox :: "effect list"

definition init_server :: server where
  "init_server = \<lparr>rooms = Map.empty, heap = (\<lambda>_. \<lparr>desktop = None, web = None\<rparr>),
     next_ref = 0, sockets = Map.empty, listeners = Map.empty, outbox = []\<rparr>"

subsection \<open>The transport\<close>

text \<open>\<open>ws.readyState === WebSocket.OPEN\<close>.\<close>

definition is_open :: "server \<Rightarrow> conn \<Rightarrow> bool" where
  "is_open st c = (sockets st c = Some OPEN)"

text \<open>\<open>ws.send(payload)\<close>: fire and forget.\<close>

definition ws_send :: "server \<Rightarrow> conn \<Rightarrow> jsval \<Rightarrow> server" where
  "ws_send st c payload = st\<lparr>outbox := outbox st @ [Sent c payload]\<rparr>"

text \<open>\<open>ws.close(code, reason)\<close>: an open socket starts its closing handshake; the
  \<open>close\<close> event comes later.\<close>

definition ws_close :: "server \<Rightarrow> conn \<Rightarrow> nat \<Rightarrow> string \<Rightarrow> server" where
  "ws_close st c code reason =
     st\<lparr>sockets := (if is_open st c then (sockets st)(c \<mapsto> CLOSING) else sockets st),
        outbox := outbox st @ [Closed c code reason]\<rparr>"

subsection \<open>Frames sent by the server\<close>

definition error_frame :: "string \<Rightarrow> jsval" where
  "error_frame message = JObject [(''type'', JString ''error''), (''message'', JString message)]"

definition connected_frame :: "string \<Rightarrow> token \<Rightarrow> jsval" where
  "connected_frame rl tok =
     JObject [(''type'', JString ''connected''), (''role'', JString rl), (''token'', JString tok)]"

definition status_frame :: "bool \<Rightarrow> bool \<Rightarrow> jsval" where
  "status_frame d w =
     JObject [(''type'', JString ''status''), (''desktop'', JBool d), (''web'', JBool w)]"

definition signal_frame :: "jsval \<Rightarrow> jsval" where
  "signal_frame name = JObject [(''type'', JString ''signal''), (''name'', name)]"

definition pong_frame :: jsval where
  "pong_frame = JObject [(''type'', JString ''pong'')]"

subsection \<open>The room registry\<close>

text \<open>\<open>getOrCreateRoom(token)\<close>: a new room object is allocated only for a token the
  table does not have; the table never drops or rebinds a token.\<close>

definition getOrCreateRoom :: "server \<Rightarrow> token \<Rightarrow> server \<times> ref" where
  "getOrCreateRoom st tok =
     (case rooms st tok of
        None \<Rightarrow>
          (st\<lparr>rooms := (rooms st)(tok \<mapsto> next_ref st),
              heap := (heap st)(next_ref st := \<lparr>desktop = None, web = None\<rparr>),
              next_ref := Suc (next_ref st)\<rparr>,
           next_ref st)
      | Some r \<Rightarrow> (st, r))"

text \<open>\<open>cleanupSocket(room, role)\<close>: nothing for a null room, else \<open>room[role] = null\<close>.\<close>

definition cleanupSocket :: "server \<Rightarrow> ref option \<Rightarrow> role \<Rightarrow> server" where
  "cleanupSocket st rm rl =
     (case rm of
        None \<Rightarrow> st
      | Some r \<Rightarrow> st\<lparr>heap := (heap st)(r := set_slot (heap st r) rl None)\<rparr>)"

subsection \<open>The status broadcast\<close>

text \<open>The body of the loop \<open>for (const ws of [room.desktop, room.web])\<close>.\<close>

definition send_if_open :: "jsval \<Rightarrow> conn option \<Rightarrow> server \<Rightarrow> server" where
  "send_if_open payload slot st =
     (case slot of
        None \<Rightarrow> st
      | Some ws \<Rightarrow> if is_open st ws then ws_send st ws payload else st)"

definition broadcastStatus :: "server \<Rightarrow> token \<Rightarrow> server" where
  "broadcastStatus st tok =
     (case rooms st tok of
        None \<Rightarrow> st
      | Some r \<Rightarrow>
          (let rm = heap st r;
               statusPayload = status_frame (desktop rm \<noteq> None) (web rm \<noteq> None)
           in fold (send_if_open statusPayload) [desktop rm, web rm] st))"

subsection \<open>Admission\<close>

text \<open>The rejection branch of the connection handler.\<close>

definition reject :: "server \<Rightarrow> conn \<Rightarrow> server" where
  "reject st ws =
     ws_close (ws_send st ws (error_frame ''Invalid token or role'')) ws 1008 ''Invalid token/role''"

text \<open>The role string after \<open>['desktop', 'web'].includes(role)\<close> has passed.\<close>

definition parse_role :: "string \<Rightarrow> role option" where
  "parse_role s =
     (if s = ''desktop'' then Some Desktop else if s = ''web'' then Some Web else None)"

text \<open>The admission branch: find or create the room, close an open occupant of the
  slot, install the new socket, acknowledge, broadcast, register the listeners.\<close>

definition admit :: "server \<Rightarrow> conn \<Rightarrow> token \<Rightarrow> role \<Rightarrow> server" where
  "admit st ws tok rl =
     (let (st1, r) = getOrCreateRoom st tok;
          st2 = (case get_slot (heap st1 r) rl of
                   None \<Rightarrow> st1
                 | Some prev \<Rightarrow>
                     if is_open st1 prev
                     then ws_close st1 prev 4000 ''Replaced by new connection''
                     else st1);
          st3 = st2\<lparr>heap := (heap st2)(r := set_slot (heap st2 r) rl (Some ws))\<rparr>;
          st4 = ws_send st3 ws (connected_frame (role_name rl) tok);
          st5 = broadcastStatus st4 tok
      in st5\<lparr>listeners := (listeners st5)
                (ws \<mapsto> \<lparr>c_ws = ws, c_token = tok, c_role = rl, c_room = r\<rparr>)\<rparr>)"

text \<open>
  The connection handler. \<open>tok\<close> and \<open>rl\<close> are the results of
  \<open>url.searchParams.get('token')\<close> and \<open>url.searchParams.get('role')\<close>: \<open>None\<close> is
  null (parameter absent). \<open>!token\<close> holds for null and for the empty string.
\<close>

definition onConnection :: "server \<Rightarrow> conn \<Rightarrow> string option \<Rightarrow> string option \<Rightarrow> server" where
  "onConnection st ws tok rl =
     (case tok of
        None \<Rightarrow> reject st ws
      | Some t \<Rightarrow>
          if t = [] then reject st ws
          else (case rl of
                  None \<Rightarrow> reject st ws
                | Some s \<Rightarrow>
                    if s = [] then reject st ws
                    else (case parse_role s of
                            None \<Rightarrow> reject st ws
                          | Some r \<Rightarrow> admit st ws t r)))"

subsection \<open>The message router\<close>

text \<open>
  The message listener of an admitted socket. The frame is given by the outcome of
  \<open>JSON.parse(raw.toString())\<close>: \<open>None\<close> when it throws, else the parsed value.
\<close>

definition onMessage :: "server \<Rightarrow> closure \<Rightarrow> jsval option \<Rightarrow> server" where
  "onMessage st cl frame =
     (case frame of
        None \<Rightarrow> ws_send st (c_ws cl) (error_frame ''Invalid JSON'')
      | Some msg \<Rightarrow>
          if truthy msg \<and> property msg ''type'' = JString ''signal'' \<and>
             (property msg ''name'' = JString ''signal-1'' \<or> property msg ''name'' = JString ''signal-2'')
          then
            (let peerRole = (if c_role cl = Desktop then Web else Desktop);
                 peer = get_slot (heap st (c_room cl)) peerRole
             in case peer of
                  None \<Rightarrow> ws_send st (c_ws cl) (error_frame ''Peer not connected'')
                | Some p \<Rightarrow>
                    if is_open st p then ws_send st p (signal_frame (property msg ''name''))
                    else ws_send st (c_ws cl) (error_frame ''Peer not connected''))
          else if truthy msg \<and> property msg ''type'' = JString ''ping''
          then ws_send st (c_ws cl) pong_frame
          else st)"

subsection \<open>Teardown\<close>

text \<open>The listeners for \<open>close\<close> and for \<open>error\<close> have the same body.\<close>

definition onClose :: "server \<Rightarrow> closure \<Rightarrow> server" where
  "onClose st cl = broadcastStatus (cleanupSocket st (Some (c_room cl)) (c_role cl)) (c_token cl)"

definition onError :: "server \<Rightarrow> closure \<Rightarrow> server" where
  "onError st cl = broadcastStatus (cleanupSocket st (Some (c_room cl)) (c_role cl)) (c_token cl)"

subsection \<open>The event loop\<close>

text \<open>
  Each callback runs to completion before the next. A \<open>Connection\<close> event brings a new,
  open socket; \<open>Message\<close>, \<open>CloseEvent\<close> and \<open>ErrorEvent\<close> run the listener registered
  on the socket, if any; a socket is closed when its \<open>close\<close> event is emitted;
  \<open>StateChange\<close> is the transport moving a socket to another ready state on its own
  (the client starts a closing handshake, the network fails).
\<close>

datatype event =
    Connection conn "string option" "string option"
  | Message conn "jsval option"
  | CloseEvent conn
  | ErrorEvent conn
  | StateChange conn ready_state

fun fire :: "server \<Rightarrow> event \<Rightarrow> server" where
  "fire st (Connection ws tok rl) = onConnection (st\<lparr>sockets := (sockets st)(ws \<mapsto> OPEN)\<rparr>) ws tok rl"
| "fire st (Message ws frame) =
     (case listeners st ws of None \<Rightarrow> st | Some cl \<Rightarrow> onMessage st cl frame)"
| "fire st (CloseEvent ws) =
     (case listeners st ws of
        None \<Rightarrow> st\<lparr>sockets := (sockets st)(ws \<mapsto> CLOSED)\<rparr>
      | Some cl \<Rightarrow> onClose (st\<lparr>sockets := (sockets st)(ws \<mapsto> CLOSED)\<rparr>) cl)"
| "fire st (ErrorEvent ws) =
     (case listeners st ws of None \<Rightarrow> st | Some cl \<Rightarrow> onError st cl)"
| "fire st (StateChange ws s) = st\<lparr>sockets := (sockets st)(ws \<mapsto> s)\<rparr>"

text \<open>An event can happen: a connection event brings a socket never seen before, every
  other event is on a socket that exists.\<close>

fun enabled :: "server \<Rightarrow> event \<Rightarrow> bool" where
  "enabled st (Connection ws tok rl) = (sockets st ws = None)"
| "enabled st (Message ws frame) = (sockets st ws \<noteq> None)"
| "enabled st (CloseEvent ws) = (sockets st ws \<noteq> None)"
| "enabled st (ErrorEvent ws) = (sockets st ws \<noteq> None)"
| "enabled st (StateChange ws s) = (sockets st ws \<noteq> None)"

inductive reachable :: "server \<Rightarrow> bool" where
  start: "reachable init_server"
| step: "reachable st \<Longrightarrow> enabled st ev \<Longrightarrow> reachable (fire st ev)"

text \<open>Running a list of events, and whether each can happen in its turn.\<close>

fun run :: "server \<Rightarrow> event list \<Rightarrow> server" where
  "run st [] = st"
| "run st (ev # evs) = run (fire st ev) evs"

fun runnable :: "server \<Rightarrow> event list \<Rightarrow> bool" where
  "runnable st [] = True"
| "runnable st (ev # evs) = (enabled st ev \<and> runnable (fire st ev) evs)"

subsection \<open>Notions used in the statements\<close>

text \<open>The occupant of the slot of token \<open>tok\<close> and role \<open>rl\<close>: what the room object
  registered for the token holds in that field, nothing when there is no room.\<close>

definition occupant :: "server \<Rightarrow> token \<Rightarrow> role \<Rightarrow> conn option" where
  "occupant st tok rl = (case rooms st tok of None \<Rightarrow> None | Some r \<Rightarrow> get_slot (heap st r) rl)"

text \<open>The sockets a room holds, in the order of the broadcast loop.\<close>

definition occupants :: "room \<Rightarrow> conn list" where
  "occupants rm =
     (case desktop rm of None \<Rightarrow> [] | Some c \<Rightarrow> [c]) @ (case web rm of None \<Rightarrow> [] | Some c \<Rightarrow> [c])"

text \<open>The calls a status broadcast for \<open>tok\<close> makes in state \<open>st\<close>.\<close>

definition status_effects :: "server \<Rightarrow> token \<Rightarrow> effect list" where
  "status_effects st tok =
     (case rooms st tok of
        None \<Rightarrow> []
      | Some r \<Rightarrow>
          map (\<lambda>c. Sent c (status_frame (desktop (heap st r) \<noteq> None) (web (heap st r) \<noteq> None)))
            (filter (is_open st) (occupants (heap st r))))"

text \<open>Two steps of the admission branch, named for the proofs.\<close>

definition evict :: "server \<Rightarrow> ref \<Rightarrow> role \<Rightarrow> server" where
  "evict st r rl =
     (case get_slot (heap st r) rl of
        None \<Rightarrow> st
      | Some prev \<Rightarrow>
          if is_open st prev then ws_close st prev 4000 ''Replaced by new connection'' else st)"

definition install :: "server \<Rightarrow> ref \<Rightarrow> role \<Rightarrow> conn \<Rightarrow> server" where
  "install st r rl ws = st\<lparr>heap := (heap st)(r := set_slot (heap st r) rl (Some ws))\<rparr>"


text \<open>A status frame among the calls.\<close>

definition is_status :: "effect \<Rightarrow> bool" where
  "is_status e =
     (case e of Sent c f \<Rightarrow> property f ''type'' = JString ''status'' | Closed c code reason \<Rightarrow> False)"

text \<open>
  What every reachable state satisfies: the closure registered on a socket names that
  socket and the room object the table has for its token, and the socket exists; a
  socket held in a slot has listeners, registered for that very room and role.
\<close>

definition consistent :: "server \<Rightarrow> bool" where
  "consistent st \<longleftrightarrow>
     (\<forall>c cl. listeners st c = Some cl \<longrightarrow>
        c_ws cl = c \<and> rooms st (c_token cl) = Some (c_room cl) \<and> sockets st c \<noteq> None) \<and>
     (\<forall>r rl c. get_slot (heap st r) rl = Some c \<longrightarrow>
        (\<exists>cl. listeners st c = Some cl \<and> c_role cl = rl \<and> c_room cl = r))"

subsection \<open>Some runs of the server\<close>


text \<open>A desktop and a web client paired in room \<open>abc\<close>.\<close>

definition paired :: server where
  "paired = run init_server
     [Connection 10 (Some ''abc'') (Some ''desktop''), Connection 20 (Some ''abc'') (Some ''web'')]"

text \<open>A second desktop has taken the place of the first, whose \<open>close\<close> event is
  still to come.\<close>

definition replaced :: server where
  "replaced = run init_server
     [Connection 10 (Some ''abc'') (Some ''desktop''), Connection 11 (Some ''abc'') (Some ''desktop'')]"

text \<open>Paired, and the desktop's socket has started closing; its \<open>close\<close> event is still
  to come.\<close>

definition half_closed :: server where
  "half_closed = run init_server
     [Connection 10 (Some ''abc'') (Some ''desktop''), Connection 20 (Some ''abc'') (Some ''web''),
      StateChange 10 CLOSING]"

text \<open>An inbound frame, \<open>{"type": "signal", "name": "signal-1"}\<close>.\<close>

definition signal_1 :: jsval where
  "signal_1 = JObject [(''type'', JString ''signal''), (''name'', JString ''signal-1'')]"

section \<open>Auxiliary facts\<close>

lemma reachable_run: "reachable st \<Longrightarrow> runnable st evs \<Longrightarrow> reachable (run st evs)"
  by (induction evs arbitrary: st) (auto intro: reachable.step)

lemma is_open_ws_send [simp]: "is_open (ws_send st c p) = is_open st"
  by (simp add: is_open_def ws_send_def fun_eq_iff)

lemma is_open_outbox [simp]: "is_open (st\<lparr>outbox := ob\<rparr>) = is_open st"
  by (simp add: is_open_def fun_eq_iff)

lemma is_open_listeners [simp]: "is_open (st\<lparr>listeners := l\<rparr>) = is_open st"
  by (simp add: is_open_def fun_eq_iff)

lemma is_open_heap [simp]: "is_open (st\<lparr>heap := h\<rparr>) = is_open st"
  by (simp add: is_open_def fun_eq_iff)

lemma broadcastStatus_effects:
  "broadcastStatus st tok = st\<lparr>outbox := outbox st @ status_effects st tok\<rparr>"
  by (auto simp: broadcastStatus_def status_effects_def occupants_def send_if_open_def
      ws_send_def Let_def split: option.splits)

lemma get_set_slot [simp]: "get_slot (set_slot rm rl v) rl' = (if rl' = rl then v else get_slot rm rl')"
  by (cases rl; cases rl') simp_all

lemma consistent_init: "consistent init_server"
  by (auto simp: consistent_def init_server_def; case_tac rl; simp)

lemma consistent_outbox [simp]: "consistent (st\<lparr>outbox := ob\<rparr>) = consistent st"
  by (simp add: consistent_def)

lemma consistent_sockets: "consistent st \<Longrightarrow> dom (sockets st) \<subseteq> dom s \<Longrightarrow> consistent (st\<lparr>sockets := s\<rparr>)"
  by (fastforce simp: consistent_def)

lemma consistent_ws_send [simp]: "consistent (ws_send st c p) = consistent st"
  by (simp add: ws_send_def)

lemma consistent_ws_close: "consistent st \<Longrightarrow> consistent (ws_close st c code reason)"
  unfolding ws_close_def by (auto intro!: consistent_sockets)

lemma consistent_broadcastStatus [simp]: "consistent (broadcastStatus st tok) = consistent st"
  by (simp add: broadcastStatus_effects)

lemma consistent_reject: "consistent st \<Longrightarrow> consistent (reject st ws)"
  by (simp add: reject_def consistent_ws_close)

lemma consistent_cleanupSocket: "consistent st \<Longrightarrow> consistent (cleanupSocket st rm rl)"
  by (auto simp: cleanupSocket_def consistent_def split: option.splits)

lemma consistent_onMessage: "consistent st \<Longrightarrow> consistent (onMessage st cl frame)"
  by (auto simp: onMessage_def Let_def split: option.splits)

lemma consistent_getOrCreateRoom: "consistent st \<Longrightarrow> consistent (fst (getOrCreateRoom st tok))"
  by (auto simp: getOrCreateRoom_def consistent_def split: option.splits; case_tac rl; simp)

lemma getOrCreateRoom_rooms: "rooms (fst (getOrCreateRoom st tok)) tok = Some (snd (getOrCreateRoom st tok))"
  by (auto simp: getOrCreateRoom_def split: option.splits)

lemma getOrCreateRoom_listeners [simp]: "listeners (fst (getOrCreateRoom st tok)) = listeners st"
  by (auto simp: getOrCreateRoom_def split: option.splits)

lemma getOrCreateRoom_sockets [simp]: "sockets (fst (getOrCreateRoom st tok)) = sockets st"
  by (auto simp: getOrCreateRoom_def split: option.splits)

lemma fresh_not_in_slot:
  "consistent st \<Longrightarrow> listeners st ws = None \<Longrightarrow> get_slot (heap st r) rl \<noteq> Some ws"
  unfolding consistent_def by fastforce

lemma consistent_install:
  assumes "consistent st" "listeners st ws = None" "rooms st tok = Some r" "sockets st ws \<noteq> None"
  shows "consistent (st\<lparr>heap := (heap st)(r := set_slot (heap st r) rl (Some ws)),
               listeners := (listeners st)(ws \<mapsto> \<lparr>c_ws = ws, c_token = tok, c_role = rl, c_room = r\<rparr>)\<rparr>)"
proof -
  have fresh: "\<And>r' rl'. get_slot (heap st r') rl' \<noteq> Some ws"
    using assms(1,2) by (rule fresh_not_in_slot)
  show ?thesis
    using assms fresh unfolding consistent_def by (auto split: if_splits)
qed

lemma status_effects_outbox [simp]: "status_effects (st\<lparr>outbox := ob\<rparr>) tok = status_effects st tok"
  by (simp add: status_effects_def split: option.splits)

lemma status_effects_listeners [simp]: "status_effects (st\<lparr>listeners := l\<rparr>) tok = status_effects st tok"
  by (simp add: status_effects_def split: option.splits)

lemma admit_eq:
  "admit st ws tok rl =
     (let st1 = fst (getOrCreateRoom st tok); r = snd (getOrCreateRoom st tok);
          st3 = install (evict st1 r rl) r rl ws
      in st3\<lparr>listeners := (listeners st3)
                (ws \<mapsto> \<lparr>c_ws = ws, c_token = tok, c_role = rl, c_room = r\<rparr>),
             outbox := outbox st3 @ [Sent ws (connected_frame (role_name rl) tok)] @
                status_effects st3 tok\<rparr>)"
  by (cases "getOrCreateRoom st tok")
    (simp add: admit_def Let_def broadcastStatus_effects ws_send_def evict_def install_def)

lemma consistent_evict: "consistent st \<Longrightarrow> consistent (evict st r rl)"
  by (auto simp: evict_def consistent_ws_close split: option.splits)

lemma evict_listeners [simp]: "listeners (evict st r rl) = listeners st"
  by (auto simp: evict_def ws_close_def split: option.splits)

lemma evict_rooms [simp]: "rooms (evict st r rl) = rooms st"
  by (auto simp: evict_def ws_close_def split: option.splits)

lemma evict_heap [simp]: "heap (evict st r rl) = heap st"
  by (auto simp: evict_def ws_close_def split: option.splits)

lemma evict_sockets_dom: "sockets st ws \<noteq> None \<Longrightarrow> sockets (evict st r rl) ws \<noteq> None"
  by (auto simp: evict_def ws_close_def split: option.splits)

lemma consistent_admit:
  assumes "consistent st" "listeners st ws = None" "sockets st ws \<noteq> None"
  shows "consistent (admit st ws tok rl)"
proof -
  define st1 where "st1 = fst (getOrCreateRoom st tok)"
  define r where "r = snd (getOrCreateRoom st tok)"
  define st2 where "st2 = evict st1 r rl"
  have consistent2: "consistent st2" using assms(1) by (simp add: st2_def st1_def consistent_getOrCreateRoom consistent_evict)
  have l2: "listeners st2 ws = None"
    using assms(2) by (simp add: st2_def st1_def)
  have r2: "rooms st2 tok = Some r"
    using getOrCreateRoom_rooms [of st tok] by (simp add: st2_def st1_def r_def)
  have s2: "sockets st2 ws \<noteq> None"
    using assms(3) by (simp add: st2_def st1_def evict_sockets_dom)
  have h2: "heap st2 = heap st1" and l2': "listeners st2 = listeners st1"
    by (simp_all add: st2_def)
  have "admit st ws tok rl =
      (st2\<lparr>heap := (heap st2)(r := set_slot (heap st2 r) rl (Some ws)),
           listeners := (listeners st2)(ws \<mapsto> \<lparr>c_ws = ws, c_token = tok, c_role = rl, c_room = r\<rparr>)\<rparr>)
      \<lparr>outbox := outbox (admit st ws tok rl)\<rparr>"
    by (simp add: admit_eq Let_def install_def st2_def st1_def r_def)
  then show ?thesis
    using consistent_install [OF consistent2 l2 r2 s2, of rl] by (metis consistent_outbox)
qed

lemma consistent_onConnection:
  "consistent st \<Longrightarrow> listeners st ws = None \<Longrightarrow> sockets st ws \<noteq> None \<Longrightarrow> consistent (onConnection st ws tok rl)"
  by (auto simp: onConnection_def consistent_reject consistent_admit split: option.splits)

lemma consistent_onClose: "consistent st \<Longrightarrow> consistent (onClose st cl)"
  by (simp add: onClose_def consistent_cleanupSocket)

lemma consistent_onError: "consistent st \<Longrightarrow> consistent (onError st cl)"
  by (simp add: onError_def consistent_cleanupSocket)

lemma consistent_no_listener: "consistent st \<Longrightarrow> sockets st ws = None \<Longrightarrow> listeners st ws = None"
  unfolding consistent_def by (cases "listeners st ws") fastforce+

lemma consistent_fire: "consistent st \<Longrightarrow> enabled st ev \<Longrightarrow> consistent (fire st ev)"
proof (cases ev)
  case (Connection ws tok rl)
  assume a: "consistent st" "enabled st ev"
  let ?st = "st\<lparr>sockets := (sockets st)(ws \<mapsto> OPEN)\<rparr>"
  have "consistent ?st" using a(1) by (auto intro: consistent_sockets)
  moreover have "listeners ?st ws = None" using a Connection by (simp add: consistent_no_listener)
  ultimately show ?thesis using Connection by (simp add: consistent_onConnection)
next
  case (CloseEvent ws)
  assume a: "consistent st" "enabled st ev"
  have "consistent (st\<lparr>sockets := (sockets st)(ws \<mapsto> CLOSED)\<rparr>)"
    using a(1) by (auto intro: consistent_sockets)
  then show ?thesis using CloseEvent by (simp add: consistent_onClose split: option.splits)
next
  case (StateChange ws s)
  assume a: "consistent st" "enabled st ev"
  have "consistent (st\<lparr>sockets := (sockets st)(ws \<mapsto> s)\<rparr>)"
    using a(1) by (auto intro: consistent_sockets)
  then show ?thesis using StateChange by simp
qed (auto simp: consistent_onMessage consistent_onError split: option.splits)

lemma reachable_consistent: "reachable st \<Longrightarrow> consistent st"
  by (induction rule: reachable.induct) (simp_all add: consistent_init consistent_fire)

lemma occupant_outbox [simp]: "occupant (st\<lparr>outbox := ob\<rparr>) tok rl = occupant st tok rl"
  by (simp add: occupant_def split: option.splits)

lemma closure_room:
  "reachable st \<Longrightarrow> listeners st ws = Some cl \<Longrightarrow>
     c_ws cl = ws \<and> rooms st (c_token cl) = Some (c_room cl)"
  using reachable_consistent [of st] unfolding consistent_def by blast

lemmas relay_eval =
  init_server_def onConnection_def parse_role_def admit_def getOrCreateRoom_def
  is_open_def ws_close_def ws_send_def broadcastStatus_def send_if_open_def Let_def
  connected_frame_def status_frame_def error_frame_def signal_frame_def pong_frame_def
  reject_def onMessage_def onClose_def onError_def cleanupSocket_def occupant_def
  occupants_def status_effects_def is_status_def



lemma reachable_replaced: "reachable replaced"
  unfolding replaced_def by (rule reachable_run [OF reachable.start]) (simp add: relay_eval)

lemma reachable_half_closed: "reachable half_closed"
  unfolding half_closed_def by (rule reachable_run [OF reachable.start]) (simp add: relay_eval)

lemma paired_fields:
  "rooms paired ''abc'' = Some 0"
  "heap paired 0 = \<lparr>desktop = Some 10, web = Some 20\<rparr>"
  "sockets paired 10 = Some OPEN" "sockets paired 20 = Some OPEN"
  "listeners paired 10 = Some \<lparr>c_ws = 10, c_token = ''abc'', c_role = Desktop, c_room = 0\<rparr>"
  "listeners paired 20 = Some \<lparr>c_ws = 20, c_token = ''abc'', c_role = Web, c_room = 0\<rparr>"
  by (simp_all add: paired_def relay_eval)

lemma replaced_fields:
  "rooms replaced ''abc'' = Some 0"
  "heap replaced 0 = \<lparr>desktop = Some 11, web = None\<rparr>"
  "occupant replaced ''abc'' Desktop = Some 11"
  "sockets replaced 10 = Some CLOSING" "sockets replaced 11 = Some OPEN"
  "listeners replaced 10 = Some \<lparr>c_ws = 10, c_token = ''abc'', c_role = Desktop, c_room = 0\<rparr>"
  "listeners replaced 11 = Some \<lparr>c_ws = 11, c_token = ''abc'', c_role = Desktop, c_room = 0\<rparr>"
  by (simp_all add: replaced_def relay_eval)

lemma half_closed_fields:
  "rooms half_closed ''abc'' = Some 0"
  "heap half_closed 0 = \<lparr>desktop = Some 10, web = Some 20\<rparr>"
  "sockets half_closed 10 = Some CLOSING" "sockets half_closed 20 = Some OPEN"
  "occupant half_closed ''abc'' Desktop = Some 10"
  by (simp_all add: half_closed_def relay_eval)







lemma role_name_valid [simp]: "role_name rl \<noteq> []" "parse_role (role_name rl) = Some rl"
  by (cases rl; simp add: parse_role_def)+



lemma getOrCreateRoom_outbox [simp]: "outbox (fst (getOrCreateRoom st tok)) = outbox st"
  by (simp add: getOrCreateRoom_def split: option.splits)

lemma is_open_getOrCreateRoom [simp]: "is_open (fst (getOrCreateRoom st tok)) = is_open st"
  by (simp add: is_open_def fun_eq_iff)


lemma evict_sockets:
  "get_slot (heap st r) rl = Some prev \<Longrightarrow> is_open st prev \<Longrightarrow>
     sockets (evict st r rl) prev = Some CLOSING"
  by (simp add: evict_def ws_close_def)


lemma not_status_frames [simp]:
  "\<not> is_status (Sent c (error_frame m))"
  "\<not> is_status (Sent c (signal_frame n))"
  "\<not> is_status (Sent c pong_frame)"
  by (simp_all add: is_status_def error_frame_def signal_frame_def pong_frame_def)

lemma onMessage_outbox:
  "\<exists>new. onMessage st cl frame = st\<lparr>outbox := outbox st @ new\<rparr> \<and> (\<forall>e\<in>set new. \<not> is_status e)"
proof -
  have triv: "st = st\<lparr>outbox := outbox st @ []\<rparr>" by simp
  have one: "\<exists>new. ws_send st c f = st\<lparr>outbox := outbox st @ new\<rparr> \<and> (\<forall>e\<in>set new. \<not> is_status e)"
    if "\<not> is_status (Sent c f)" for c f
    using that by (intro exI [of _ "[Sent c f]"]) (simp add: ws_send_def)
  have none: "\<exists>new. st = st\<lparr>outbox := outbox st @ new\<rparr> \<and> (\<forall>e\<in>set new. \<not> is_status e)"
    by (intro exI [of _ "[]"]) simp
  show ?thesis
    unfolding onMessage_def Let_def
    by (auto split: option.splits intro!: one none)
qed

section \<open>The claims\<close>

subsection \<open>Admission\<close>





subsection \<open>Routing\<close>





text \<open>
  C8. A parsed frame whose \<open>type\<close> is neither \<open>signal\<close> nor \<open>ping\<close> (absent, or not a
  string, included): the handler does nothing.
\<close>

theorem unrecognized_type_ignored:
  assumes "property msg ''type'' \<noteq> JString ''signal''" and "property msg ''type'' \<noteq> JString ''ping''"
  shows "onMessage st cl (Some msg) = st"
  using assms by (simp add: onMessage_def)

theorem unrecognized_type_ignored_witness:
  "property (JObject [(''type'', JString ''hello'')]) ''type'' \<noteq> JString ''signal'' \<and>
   property (JObject [(''type'', JString ''hello'')]) ''type'' \<noteq> JString ''ping'' \<and>
   onMessage paired \<lparr>c_ws = 10, c_token = ''abc'', c_role = Desktop, c_room = 0\<rparr>
     (Some (JObject [(''type'', JString ''hello'')])) = paired"
  using unrecognized_type_ignored [of "JObject [(''type'', JString ''hello'')]" paired
      "\<lparr>c_ws = 10, c_token = ''abc'', c_role = Desktop, c_room = 0\<rparr>"]
  by simp

text \<open>
  C10. A parsed frame of type \<open>signal\<close> whose name is neither \<open>signal-1\<close> nor
  \<open>signal-2\<close> is ignored like a frame of unknown type, whatever the room holds.
\<close>

theorem unknown_signal_name_ignored:
  assumes "property msg ''type'' = JString ''signal''"
    and "property msg ''name'' \<noteq> JString ''signal-1''"
    and "property msg ''name'' \<noteq> JString ''signal-2''"
  shows "onMessage st cl (Some msg) = st"
  using assms by (simp add: onMessage_def)

theorem unknown_signal_name_ignored_witness:
  "occupant paired ''abc'' Web = Some 20 \<and> is_open paired 20 \<and>
   onMessage paired \<lparr>c_ws = 10, c_token = ''abc'', c_role = Desktop, c_room = 0\<rparr>
     (Some (JObject [(''type'', JString ''signal''), (''name'', JString ''signal-3'')])) = paired"
  using unknown_signal_name_ignored
      [of "JObject [(''type'', JString ''signal''), (''name'', JString ''signal-3'')]" paired
        "\<lparr>c_ws = 10, c_token = ''abc'', c_role = Desktop, c_room = 0\<rparr>"]
  by (simp add: occupant_def paired_fields is_open_def)

text \<open>
  C9. Whatever the frame, the message handler changes nothing but the list of calls:
  the table of rooms, the room objects, the sockets and the listeners are as before,
  and none of the frames it sends is a status frame.
\<close>

theorem router_leaves_rooms:
  "rooms (onMessage st cl frame) = rooms st \<and> heap (onMessage st cl frame) = heap st \<and>
   next_ref (onMessage st cl frame) = next_ref st \<and>
   sockets (onMessage st cl frame) = sockets st \<and>
   listeners (onMessage st cl frame) = listeners st \<and>
   (\<exists>new. outbox (onMessage st cl frame) = outbox st @ new \<and> (\<forall>e\<in>set new. \<not> is_status e))"
proof -
  from onMessage_outbox [of st cl frame] obtain new
    where eq: "onMessage st cl frame = st\<lparr>outbox := outbox st @ new\<rparr>"
      and new: "\<forall>e\<in>set new. \<not> is_status e" by blast
  show ?thesis unfolding eq using new by auto
qed

theorem router_leaves_rooms_witness:
  "rooms (onMessage paired \<lparr>c_ws = 10, c_token = ''abc'', c_role = Desktop, c_room = 0\<rparr>
      (Some signal_1)) = rooms paired \<and>
   heap (onMessage paired \<lparr>c_ws = 10, c_token = ''abc'', c_role = Desktop, c_room = 0\<rparr>
      (Some signal_1)) = heap paired \<and>
   outbox (onMessage paired \<lparr>c_ws = 10, c_token = ''abc'', c_role = Desktop, c_room = 0\<rparr>
      (Some signal_1)) = outbox paired @ [Sent 20 (signal_frame (JString ''signal-1''))] \<and>
   \<not> is_status (Sent 20 (signal_frame (JString ''signal-1'')))"
  using router_leaves_rooms [of paired "\<lparr>c_ws = 10, c_token = ''abc'', c_role = Desktop, c_room = 0\<rparr>"
      "Some signal_1"]
  by (simp add: onMessage_def signal_1_def paired_fields is_open_def ws_send_def Let_def)

subsection \<open>Teardown\<close>

text \<open>
  C1 (as amended). The claim has the teardown handler compare the closing socket with
  the occupant of its slot. \<open>cleanupSocket\<close> is given the room and the role only and
  assigns null: on the \<open>close\<close> or \<open>error\<close> event of a socket admitted with token
  \<open>T\<close> and role \<open>R\<close>, the slot \<open>(T, R)\<close> is empty afterwards, whoever held it, and the
  table of rooms is as before.
\<close>

theorem teardown_clears_slot:
  assumes "reachable st" and "listeners st ws = Some cl"
  shows "occupant (onClose st cl) (c_token cl) (c_role cl) = None \<and>
         occupant (onError st cl) (c_token cl) (c_role cl) = None \<and>
         rooms (onClose st cl) = rooms st \<and> rooms (onError st cl) = rooms st"
  using closure_room [OF assms]
  by (simp add: onClose_def onError_def broadcastStatus_effects cleanupSocket_def occupant_def)

theorem teardown_clears_slot_witness:
  "reachable replaced \<and>
   listeners replaced 10 = Some \<lparr>c_ws = 10, c_token = ''abc'', c_role = Desktop, c_room = 0\<rparr> \<and>
   occupant replaced ''abc'' Desktop = Some 11 \<and>
   occupant (onClose replaced \<lparr>c_ws = 10, c_token = ''abc'', c_role = Desktop, c_room = 0\<rparr>)
     ''abc'' Desktop = None"
  using teardown_clears_slot [OF reachable_replaced replaced_fields(6)]
  by (simp add: reachable_replaced replaced_fields)

text \<open>
  The claim as stated fails: socket 10 was admitted as the desktop of \<open>abc\<close>, socket 11
  took its place, and the late \<open>close\<close> (or \<open>error\<close>) event of socket 10 empties the
  slot that holds socket 11.
\<close>

theorem teardown_clears_replacement_counterexample:
  "listeners replaced 10 = Some \<lparr>c_ws = 10, c_token = ''abc'', c_role = Desktop, c_room = 0\<rparr> \<and>
   occupant replaced ''abc'' Desktop = Some 11 \<and>
   occupant (fire replaced (CloseEvent 10)) ''abc'' Desktop = None \<and>
   occupant (fire replaced (ErrorEvent 10)) ''abc'' Desktop = None"
  by (simp add: replaced_def relay_eval)

subsection \<open>The status broadcast\<close>

text \<open>
  C2 (as amended). \<open>broadcastStatus(token)\<close> does nothing when the table has no room
  for the token. Otherwise it makes one payload, whose \<open>desktop\<close> and \<open>web\<close> flags say
  whether the slot is non-null (\<open>!!room.desktop\<close>: the ready state of the socket is
  not looked at), and sends that one payload to every socket of the room that is open,
  the desktop's first.
\<close>

theorem broadcastStatus_sends_snapshot:
  "(rooms st tok = None \<longrightarrow> broadcastStatus st tok = st) \<and>
   (\<forall>r. rooms st tok = Some r \<longrightarrow>
      broadcastStatus st tok =
        st\<lparr>outbox := outbox st @
             map (\<lambda>c. Sent c (status_frame (desktop (heap st r) \<noteq> None) (web (heap st r) \<noteq> None)))
               (filter (is_open st) (occupants (heap st r)))\<rparr>)"
  by (simp add: broadcastStatus_effects status_effects_def)

theorem broadcastStatus_sends_snapshot_witness:
  "rooms init_server ''abc'' = None \<and> broadcastStatus init_server ''abc'' = init_server \<and>
   rooms half_closed ''abc'' = Some 0 \<and>
   broadcastStatus half_closed ''abc'' =
     half_closed\<lparr>outbox := outbox half_closed @ [Sent 20 (status_frame True True)]\<rparr>"
  using broadcastStatus_sends_snapshot [of init_server "''abc''"]
    broadcastStatus_sends_snapshot [of half_closed "''abc''"]
  by (simp add: half_closed_fields occupants_def is_open_def) (simp add: init_server_def)

text \<open>
  The claim as stated fails: the desktop slot of \<open>abc\<close> holds socket 10, which is
  closing and not open, and the payload sent to the web client still says
  \<open>desktop: true\<close>.
\<close>

theorem broadcast_snapshot_counterexample:
  "occupant half_closed ''abc'' Desktop = Some 10 \<and> \<not> is_open half_closed 10 \<and>
   outbox (broadcastStatus half_closed ''abc'') =
     outbox half_closed @ [Sent 20 (status_frame True True)]"
  by (simp add: half_closed_def relay_eval)

subsection \<open>One occupant for a slot\<close>



end
